theory Spec2Isabelle
  imports Complex_Main "HOL-Library.Sublist"
begin

section \<open>Strings as the crawler uses them\<close>

text \<open>
  Python strings are modelled as \<open>string\<close> (lists of characters). The character tests
  of the source (\<open>str.isdigit\<close>, \<open>str.strip\<close>, \<open>str.lower\<close>) are modelled on the
  ASCII range; a character outside ASCII is neither a digit nor white space and is left
  alone by \<open>lower\<close>.
\<close>

definition isdigit :: "char \<Rightarrow> bool" where
  "isdigit c = (48 \<le> (of_char c :: nat) \<and> (of_char c :: nat) \<le> 57)"

definition digit_val :: "char \<Rightarrow> nat" where
  "digit_val c = (of_char c :: nat) - 48"

definition digits_val :: "string \<Rightarrow> nat" where
  "digits_val ds = foldl (\<lambda>a c. 10 * a + digit_val c) 0 ds"

definition isspace :: "char \<Rightarrow> bool" where
  "isspace c = (let n = (of_char c :: nat) in n = 32 \<or> (9 \<le> n \<and> n \<le> 13) \<or> (28 \<le> n \<and> n \<le> 31))"

definition strip :: "string \<Rightarrow> string" where
  "strip s = rev (dropWhile isspace (rev (dropWhile isspace s)))"

definition lower_char :: "char \<Rightarrow> char" where
  "lower_char c = (let n = (of_char c :: nat) in if 65 \<le> n \<and> n \<le> 90 then char_of (n + 32) else c)"

definition lower :: "string \<Rightarrow> string" where
  "lower s = map lower_char s"

text \<open>\<open>contains sub s\<close> is Python's \<open>sub in s\<close>: \<open>sub\<close> occurs in \<open>s\<close> as a contiguous run.\<close>

fun contains :: "string \<Rightarrow> string \<Rightarrow> bool" where
  "contains sub [] = (sub = [])"
| "contains sub (c # s) = (prefix sub (c # s) \<or> contains sub s)"

section \<open>Errors\<close>

datatype error = ValueError | OSError

section \<open>Number parsing\<close>

text \<open>
  \<open>float(clean)\<close> on a string of decimal digits and points: the string is accepted when
  it has at most one point and at least one digit (\<open>12\<close>, \<open>12.\<close>, \<open>.5\<close>, \<open>12.5\<close>),
  and raises \<open>ValueError\<close> otherwise (\<open>.\<close>, \<open>1.2.3\<close>). The value is the exact decimal
  value as a rational; rounding to a binary float is not modelled. Characters other than
  digits and the point never reach \<open>float\<close> in \<open>clean_price\<close>; the model rejects them.
\<close>

definition py_float :: "string \<Rightarrow> rat option" where
  "py_float s =
     (let ip = takeWhile isdigit s; r = dropWhile isdigit s in
      case r of
        [] \<Rightarrow> (if ip = [] then None else Some (of_nat (digits_val ip)))
      | c # fp \<Rightarrow>
          (if c = CHR ''.'' \<and> list_all isdigit fp \<and> \<not> (ip = [] \<and> fp = [])
           then Some (of_nat (digits_val ip) + of_nat (digits_val fp) / 10 ^ length fp)
           else None))"

text \<open>
  \<open>int(s)\<close> on a string: surrounding white space is ignored, one sign is allowed, and the
  digits may be grouped by single underscores between digits. Anything else raises
  \<open>ValueError\<close> (the value \<open>None\<close> here).
\<close>

fun digits_ok :: "string \<Rightarrow> bool" where
  "digits_ok [] = False"
| "digits_ok [c] = isdigit c"
| "digits_ok (c # d # r) =
     (isdigit c \<and> (if d = CHR ''_'' then digits_ok r else digits_ok (d # r)))"

definition py_nat :: "string \<Rightarrow> int option" where
  "py_nat s = (if digits_ok s then Some (int (digits_val (filter isdigit s))) else None)"

definition py_int :: "string \<Rightarrow> int option" where
  "py_int s0 =
     (case strip s0 of
        [] \<Rightarrow> None
      | c # r \<Rightarrow>
          if c = CHR ''-'' then map_option uminus (py_nat r)
          else if c = CHR ''+'' then py_nat r
          else py_nat (c # r))"

section \<open>Price cleaning\<close>

text \<open>
  \<^verbatim>\<open>
  def clean_price(price_text):
      clean = ''
      for char in price_text:
          if char.isdigit() or char == '.':
              clean += char
      return float(clean) if clean else 0.0
  \<close>
  The loop keeps the digits and points of the text in order. The conversion is not
  guarded: when \<open>float\<close> raises, \<open>clean_price\<close> raises.
\<close>

definition clean_price :: "string \<Rightarrow> error + rat" where
  "clean_price price_text =
     (let clean = filter (\<lambda>char. isdigit char \<or> char = CHR ''.'') price_text in
      if clean \<noteq> [] then (case py_float clean of None \<Rightarrow> Inl ValueError | Some v \<Rightarrow> Inr v)
      else Inr 0)"

section \<open>Field extraction\<close>

text \<open>
  The HTTP transport and the HTML parser are external. A fetched item page is modelled
  by what the \<open>find\<close> calls of \<open>scrape_book\<close> return on it: the text of the first
  \<open>h1\<close>, of the \<open>price_color\<close> paragraph and of the availability paragraph, the string
  form of the \<open>star-rating\<close> paragraph, the rows of the first table (each with the text of
  its first \<open>th\<close> and \<open>td\<close>, when present) and the stripped texts of the breadcrumb
  items. \<open>None\<close> is an element that \<open>find\<close> does not find.
\<close>

record page =
  h1 :: "string option"
  price_color :: "string option"
  availability :: "string option"
  star_rating :: "string option"
  table_rows :: "(string option \<times> string option) list option"
  breadcrumb :: "string list option"

datatype response = No_response | Response int page

record book =
  url :: string
  title :: string
  category :: string
  rating :: int
  upc :: string
  price :: rat
  currency :: string
  in_stock :: bool
  reviews :: int

text \<open>
  \<^verbatim>\<open>
  rating = 0
  if rating_elem:
      rating_map = {'One': 1, 'Two': 2, 'Three': 3, 'Four': 4, 'Five': 5}
      for word, num in rating_map.items():
          if word in str(rating_elem):
              rating = num
              break
  \<close>
  The dictionary is iterated in insertion order, so it is an association list here.
\<close>

definition rating_map :: "(string \<times> int) list" where
  "rating_map = [(''One'', 1), (''Two'', 2), (''Three'', 3), (''Four'', 4), (''Five'', 5)]"

fun first_match :: "(string \<times> int) list \<Rightarrow> string \<Rightarrow> int" where
  "first_match [] s = 0"
| "first_match ((word, num) # m) s = (if contains word s then num else first_match m s)"

definition extract_rating :: "string option \<Rightarrow> int" where
  "extract_rating rating_elem =
     (case rating_elem of None \<Rightarrow> 0 | Some s \<Rightarrow> first_match rating_map s)"

text \<open>
  \<^verbatim>\<open>
  upc = ''
  reviews = 0
  table = soup.find('table')
  if table:
      for row in table.find_all('tr'):
          th = row.find('th'); td = row.find('td')
          if th and td:
              if 'UPC' in th.get_text():
                  upc = td.text.strip()
              elif 'review' in th.get_text().lower():
                  try:
                      reviews = int(td.text.strip())
                  except ValueError:
                      reviews = 0
  \<close>
  The scan carries the pair of \<open>upc\<close> and \<open>reviews\<close> through the rows; there is no
  \<open>break\<close>, so a later matching row overwrites an earlier one.
\<close>

definition scan_row :: "string option \<times> string option \<Rightarrow> string \<times> int \<Rightarrow> string \<times> int" where
  "scan_row row acc =
     (case row of
        (Some th, Some td) \<Rightarrow>
          if contains ''UPC'' th then (strip td, snd acc)
          else if contains ''review'' (lower th)
            then (fst acc, (case py_int (strip td) of Some n \<Rightarrow> n | None \<Rightarrow> 0))
          else acc
      | _ \<Rightarrow> acc)"

fun scan_rows :: "(string option \<times> string option) list \<Rightarrow> string \<times> int \<Rightarrow> string \<times> int" where
  "scan_rows [] acc = acc"
| "scan_rows (row # rows) acc = scan_rows rows (scan_row row acc)"

definition scan_table :: "(string option \<times> string option) list option \<Rightarrow> string \<times> int" where
  "scan_table tbl = (case tbl of None \<Rightarrow> ([], 0) | Some rows \<Rightarrow> scan_rows rows ([], 0))"

definition extract_category :: "string list option \<Rightarrow> string" where
  "extract_category bc =
     (case bc of
        None \<Rightarrow> ''Unknown''
      | Some items \<Rightarrow> if length items \<ge> 3 then items ! 2 else ''Unknown'')"

text \<open>
  \<open>scrape_book\<close>: the whole body is inside \<open>try\<close>, and \<open>except Exception\<close> returns
  \<open>None\<close>. In the model the exceptions are the failed request (\<open>No_response\<close>) and the
  \<open>ValueError\<close> of \<open>clean_price\<close>; a status other than 200 returns \<open>None\<close> directly.
\<close>

definition scrape_book :: "(string \<Rightarrow> response) \<Rightarrow> string \<Rightarrow> book option" where
  "scrape_book get book_url =
     (case get book_url of
        No_response \<Rightarrow> None
      | Response status_code soup \<Rightarrow>
          if status_code \<noteq> 200 then None
          else
            (case (case price_color soup of Some t \<Rightarrow> clean_price t | None \<Rightarrow> Inr 0) of
               Inl e \<Rightarrow> None
             | Inr p \<Rightarrow>
                 Some \<lparr> url = book_url,
                        title = (case h1 soup of Some t \<Rightarrow> t | None \<Rightarrow> ''No title''),
                        category = extract_category (breadcrumb soup),
                        rating = extract_rating (star_rating soup),
                        upc = fst (scan_table (table_rows soup)),
                        price = p,
                        currency = ''GBP'',
                        in_stock = (case availability soup of
                                      Some t \<Rightarrow> contains ''In stock'' t | None \<Rightarrow> False),
                        reviews = snd (scan_table (table_rows soup)) \<rparr>))"

section \<open>Workers\<close>

text \<open>
  A \<open>get\<close> with a timeout on a queue either returns an entry or raises \<open>Empty\<close>. What a
  process sees of a queue is the sequence of the outcomes of its \<open>get\<close> calls; when the
  sequence is used up the queue stays silent and the next \<open>get\<close> times out.
\<close>

datatype 'a pop = Popped 'a | Pop_timeout

text \<open>
  \<^verbatim>\<open>
  while True:
      try:
          book_url = url_queue.get(timeout=2)
          if book_url is None:
              break
          result = scrape_book(book_url)
          if result:
              result_queue.put(result)
          else:
              result_queue.put(None)
      except Exception:
          break
  \<close>
  An entry of the work queue is \<open>Some url\<close> or the stop request \<open>None\<close>. The worker
  returns the outcomes it has put on the result queue, in order, and the pops it has
  not consumed.
\<close>

fun worker_process ::
  "(string \<Rightarrow> response) \<Rightarrow> string option pop list \<Rightarrow> book option list \<times> string option pop list" where
  "worker_process get [] = ([], [])"
| "worker_process get (Pop_timeout # q) = ([], q)"
| "worker_process get (Popped None # q) = ([], q)"
| "worker_process get (Popped (Some book_url) # q) =
     (let (out, q') = worker_process get q in (scrape_book get book_url # out, q'))"

section \<open>Collecting the item URLs\<close>

text \<open>\<open>str(page)\<close> for the page number inside the f-string.\<close>

fun str_nat :: "nat \<Rightarrow> string" where
  "str_nat n = (if n < 10 then [char_of (48 + n)] else str_nat (n div 10) @ [char_of (48 + n mod 10)])"

definition str_int :: "int \<Rightarrow> string" where
  "str_int i = (if i < 0 then CHR ''-'' # str_nat (nat (- i)) else str_nat (nat i))"

definition page_url :: "string \<Rightarrow> int \<Rightarrow> string" where
  "page_url base_url page =
     (if page = 1 then base_url else base_url @ ''catalogue/page-'' @ str_int page @ ''.html'')"

text \<open>
  A listing page as \<open>get_book_urls\<close> sees it: the request or the parser raised
  (\<open>Listing_error\<close>), or the page has a list of \<open>product_pod\<close> containers, each with the
  \<open>href\<close> of the link in its \<open>h3\<close>, or \<open>None\<close> when
  \<open>book.find('h3').find('a')['href']\<close> raises for it.
\<close>

datatype listing = Listing_error | Listing "string option list"

text \<open>
  \<^verbatim>\<open>
  for book in books:
      link = book.find('h3').find('a')['href']
      book_url = urljoin(page_url, link)
      book_urls.append(book_url)
  \<close>
  The loop runs inside the \<open>try\<close> of the page: an exception leaves the loop with the
  URLs appended so far still in \<open>book_urls\<close>. \<open>urljoin\<close> is the library's function and
  is a parameter.
\<close>

fun collect_links ::
  "(string \<Rightarrow> string \<Rightarrow> string) \<Rightarrow> string \<Rightarrow> string option list \<Rightarrow> string list \<Rightarrow> string list" where
  "collect_links urljoin pg [] book_urls = book_urls"
| "collect_links urljoin pg (None # books) book_urls = book_urls"
| "collect_links urljoin pg (Some link # books) book_urls =
     collect_links urljoin pg books (book_urls @ [urljoin pg link])"

definition scan_page ::
  "(string \<Rightarrow> string \<Rightarrow> string) \<Rightarrow> (string \<Rightarrow> listing) \<Rightarrow> string \<Rightarrow> string list \<Rightarrow> string list" where
  "scan_page urljoin get pg book_urls =
     (case get pg of
        Listing_error \<Rightarrow> book_urls
      | Listing books \<Rightarrow> collect_links urljoin pg books book_urls)"

definition get_book_urls ::
  "(string \<Rightarrow> string \<Rightarrow> string) \<Rightarrow> (string \<Rightarrow> listing) \<Rightarrow> string \<Rightarrow> int \<Rightarrow> string list" where
  "get_book_urls urljoin get base_url total_pages =
     foldl (\<lambda>book_urls page. scan_page urljoin get (page_url base_url page) book_urls)
       [] [1..total_pages]"

section \<open>Saving and the aggregation loop\<close>

text \<open>
  \<open>save_books\<close> writes the whole list to the output file and may raise. The disk is
  modelled by the lists written so far (\<open>written\<close>, oldest first) and by \<open>faults\<close>: for
  each coming call of \<open>save_books\<close>, whether it raises; when \<open>faults\<close> is used up every
  write succeeds.
\<close>

record disk =
  written :: "book list list"
  faults :: "bool list"

definition save_books :: "book list \<Rightarrow> disk \<Rightarrow> (error + unit) \<times> disk" where
  "save_books books d =
     (case faults d of
        [] \<Rightarrow> (Inr (), d\<lparr>written := written d @ [books]\<rparr>)
      | f # fs \<Rightarrow>
          if f then (Inl OSError, d\<lparr>faults := fs\<rparr>)
          else (Inr (), d\<lparr>written := written d @ [books], faults := fs\<rparr>))"

record crawl_state =
  all_books :: "book list"
  crawled_count :: nat
  failed_count :: nat

definition init_state :: crawl_state where
  "init_state = \<lparr> all_books = [], crawled_count = 0, failed_count = 0 \<rparr>"

text \<open>
  \<^verbatim>\<open>
  while crawled_count + failed_count < total_crawl_count:
      try:
          result = result_queue.get(timeout=30)
          if result is not None:
              all_books.append(result)
              crawled_count += 1
          else:
              failed_count += 1
          ...
          if crawled_count % 20 == 0 and crawled_count > 0:
              save_books(all_books, filename)
      except Exception:
          print("    Timeout waiting for results")
          break
  \<close>
  The loop ends by its condition (\<open>Completed\<close>) or by \<open>break\<close> in the handler
  (\<open>Broke\<close>), which catches the timeout of \<open>get\<close> and an exception of \<open>save_books\<close>
  alike. The progress messages are left out. The loop returns how it ended, the state,
  the pops it has not consumed and the disk.
\<close>

datatype loop_exit = Completed | Broke

definition record_result :: "book option \<Rightarrow> crawl_state \<Rightarrow> crawl_state" where
  "record_result result st =
     (case result of
        Some b \<Rightarrow> st\<lparr>all_books := all_books st @ [b], crawled_count := crawled_count st + 1\<rparr>
      | None \<Rightarrow> st\<lparr>failed_count := failed_count st + 1\<rparr>)"

definition auto_save :: "crawl_state \<Rightarrow> disk \<Rightarrow> (error + unit) \<times> disk" where
  "auto_save st d =
     (if crawled_count st mod 20 = 0 \<and> crawled_count st > 0 then save_books (all_books st) d
      else (Inr (), d))"

fun main_loop ::
  "nat \<Rightarrow> book option pop list \<Rightarrow> crawl_state \<Rightarrow> disk
     \<Rightarrow> loop_exit \<times> crawl_state \<times> book option pop list \<times> disk" where
  "main_loop total_crawl_count [] st d =
     (if crawled_count st + failed_count st < total_crawl_count then (Broke, st, [], d)
      else (Completed, st, [], d))"
| "main_loop total_crawl_count (Pop_timeout # q) st d =
     (if crawled_count st + failed_count st < total_crawl_count then (Broke, st, q, d)
      else (Completed, st, Pop_timeout # q, d))"
| "main_loop total_crawl_count (Popped result # q) st d =
     (if crawled_count st + failed_count st < total_crawl_count then
        (let st' = record_result result st in
         case auto_save st' d of
           (Inl e, d') \<Rightarrow> (Broke, st', q, d')
         | (Inr u, d') \<Rightarrow> main_loop total_crawl_count q st' d')
      else (Completed, st, Popped result # q, d))"


section \<open>Characterisations and sample inputs\<close>

text \<open>
  The definitions of this section are not code of the crawler. They name what the
  theorems below compare the code with, and the concrete inputs at which the theorems
  are evaluated.
\<close>




text \<open>The records among a sequence of outcomes, in order.\<close>

fun successes :: "book option list \<Rightarrow> book list" where
  "successes [] = []"
| "successes (Some b # rs) = b # successes rs"
| "successes (None # rs) = successes rs"

text \<open>The links of a listing page up to the first container whose link cannot be read.\<close>

fun links_before_failure :: "string option list \<Rightarrow> string list" where
  "links_before_failure [] = []"
| "links_before_failure (None # books) = []"
| "links_before_failure (Some link # books) = link # links_before_failure books"

text \<open>
  \<open>urljoin\<close> on the simplest relative reference, a path with no scheme, no leading slash
  and no dot segments: the base up to its last slash, then the reference.
\<close>

definition dir_join :: "string \<Rightarrow> string \<Rightarrow> string" where
  "dir_join base link = rev (dropWhile (\<lambda>c. c \<noteq> CHR ''/'') (rev base)) @ link"

text \<open>A server that answers every request with the same page, and one that never answers.\<close>

definition serve :: "page \<Rightarrow> string \<Rightarrow> response" where
  "serve pg book_url = Response 200 pg"

definition no_server :: "string \<Rightarrow> response" where
  "no_server book_url = No_response"

text \<open>An item page whose price paragraph reads \<open>N.A.\<close>.\<close>

definition na_price_page :: page where
  "na_price_page =
     \<lparr> h1 = Some ''A Light in the Attic'', price_color = Some ''N.A.'', availability = None,
       star_rating = None, table_rows = None, breadcrumb = None \<rparr>"

definition sample_book :: book where
  "sample_book =
     \<lparr> url = ''u'', title = ''t'', category = ''c'', rating = 3, upc = ''x'', price = 1,
       currency = ''GBP'', in_stock = True, reviews = 0 \<rparr>"

text \<open>
  A catalogue of two listing pages: on the first the second container has no readable
  link; every other page cannot be fetched.
\<close>

definition demo_site :: "string \<Rightarrow> listing" where
  "demo_site pg =
     (if pg = ''http://b/'' then Listing [Some ''catalogue/a.html'', None, Some ''catalogue/z.html'']
      else if pg = ''http://b/catalogue/page-2.html'' then Listing [Some ''c.html'']
      else Listing_error)"

section \<open>Evaluation facts\<close>

lemmas str_eval = isdigit_def digit_val_def digits_val_def isspace_def strip_def

section \<open>Price cleaning\<close>

lemma clean_price_examples:
  "clean_price (CHR 0xA3 # ''51.77'') = Inr (5177 / 100) \<and> clean_price [] = Inr 0"
  by (simp add: clean_price_def py_float_def str_eval)

lemma clean_price_no_digit_no_point:
  "list_all (\<lambda>c. \<not> isdigit c \<and> c \<noteq> CHR ''.'') price_text \<Longrightarrow> clean_price price_text = Inr 0"
  by (induction price_text) (auto simp: clean_price_def)

text \<open>
  C4. The price of a text is the decimal value of its digits and points, and 0.0 when
  nothing is left or the rest does not parse; an unparsable price does not abort the
  record. The code does not do this: for the price text \<open>N.A.\<close>, which has no digit, the
  stripped string is \<open>..\<close>, \<open>float\<close> raises, \<open>clean_price\<close> raises with it, and
  \<open>scrape_book\<close> returns \<open>None\<close> for the whole page.
\<close>

theorem clean_price_unparsable_raises:
  "clean_price ''N.A.'' = Inl ValueError \<and> scrape_book (serve na_price_page) ''u'' = None"
  by (simp add: clean_price_def py_float_def str_eval scrape_book_def serve_def na_price_page_def)

section \<open>The product table\<close>







lemma non_numeric_reviews_example:
  "snd (scan_table (Some [(Some ''Number of reviews'', Some ''many'')])) = 0"
  by (simp add: scan_table_def scan_row_def str_eval lower_def lower_char_def py_int_def py_nat_def)

section \<open>The rating\<close>




section \<open>Workers\<close>

text \<open>
  C2, as the code has it. A pop that times out ends the worker, whatever the queue holds
  afterwards: after any run of item URLs, each scraped and reported, the timed-out pop
  is the last one, nothing more is put on the result queue and the entries behind it
  stay on the queue.
\<close>

theorem worker_ends_at_timeout:
  "worker_process get (map (\<lambda>u. Popped (Some u)) urls @ Pop_timeout # q)
     = (map (scrape_book get) urls, q)"
  by (induction urls) auto

text \<open>
  One timeout with an item and a stop request behind it: the worker reports nothing and
  leaves both on the queue, while without the timeout it reports the item's outcome.
\<close>

theorem worker_timeout_counterexample:
  "worker_process no_server [Pop_timeout, Popped (Some ''u''), Popped None]
     = ([], [Popped (Some ''u''), Popped None])
   \<and> worker_process no_server [Popped (Some ''u''), Popped None] = ([None], [])"
  by (simp add: scrape_book_def no_server_def)

section \<open>The aggregation loop\<close>

lemma successes_append: "successes (xs @ ys) = successes xs @ successes ys"
  by (induction xs rule: successes.induct) auto

lemma main_loop_trace:
  "main_loop n q st d = (ex, st', rest, d') \<Longrightarrow>
   \<exists>used. prefix (map Popped used) q
     \<and> all_books st' = all_books st @ successes used
     \<and> crawled_count st' = crawled_count st + length (successes used)
     \<and> failed_count st' = failed_count st + count_list used None
     \<and> (ex = Completed \<longrightarrow> q = map Popped used @ rest \<and> \<not> crawled_count st' + failed_count st' < n
           \<and> (crawled_count st + failed_count st \<le> n \<longrightarrow> crawled_count st' + failed_count st' = n))
     \<and> (\<exists>ws. written d' = written d @ ws
           \<and> (\<forall>w\<in>set ws. \<exists>k\<le>length used. w = all_books st @ successes (take k used)))"
proof (induction n q st d arbitrary: ex st' rest d' rule: main_loop.induct)
  case (1 n st d)
  then show ?case by (intro exI[of _ "[]"]) (auto split: if_splits)
next
  case (2 n q st d)
  then show ?case by (intro exI[of _ "[]"]) (auto split: if_splits)
next
  case (3 n result q st d)
  show ?case
  proof (cases "crawled_count st + failed_count st < n")
    case False
    with 3(2) show ?thesis by (intro exI[of _ "[]"]) auto
  next
    case True
    define st1 where "st1 = record_result result st"
    obtain r d1 where as: "auto_save st1 d = (r, d1)" by (cases "auto_save st1 d")
    have st1: "all_books st1 = all_books st @ successes [result]"
      "crawled_count st1 = crawled_count st + length (successes [result])"
      "failed_count st1 = failed_count st + count_list [result] None"
      by (cases result; simp add: st1_def record_result_def)+
    have wr: "\<exists>ws. written d1 = written d @ ws \<and> (\<forall>w\<in>set ws. w = all_books st1)"
      using as by (auto simp: auto_save_def save_books_def split: if_splits list.splits)
    then obtain ws1 where ws1: "written d1 = written d @ ws1" "\<forall>w\<in>set ws1. w = all_books st1"
      by blast
    show ?thesis
    proof (cases r)
      case (Inl e)
      with 3(2) True as have eq: "ex = Broke" "st' = st1" "rest = q" "d' = d1"
        by (auto simp: st1_def Let_def)
      show ?thesis
        apply (rule exI[of _ "[result]"])
        using eq st1 ws1
        by (auto intro!: exI[of _ ws1])
    next
      case (Inr u)
      with 3(2) True as have rec: "main_loop n q st1 d1 = (ex, st', rest, d')"
        by (auto simp: st1_def Let_def)
            from "3.IH"[OF True st1_def as[symmetric] Inr rec]
      obtain used2 ws2 where u2:
        "prefix (map Popped used2) q"
        "all_books st' = all_books st1 @ successes used2"
        "crawled_count st' = crawled_count st1 + length (successes used2)"
        "failed_count st' = failed_count st1 + count_list used2 None"
        "ex = Completed \<longrightarrow> q = map Popped used2 @ rest \<and> \<not> crawled_count st' + failed_count st' < n
           \<and> (crawled_count st1 + failed_count st1 \<le> n \<longrightarrow> crawled_count st' + failed_count st' = n)"
        "written d' = written d1 @ ws2"
        "\<forall>w\<in>set ws2. \<exists>k\<le>length used2. w = all_books st1 @ successes (take k used2)"
        by blast
      have s1: "successes (result # xs) = successes [result] @ successes xs" for xs
        by (cases result) simp_all
      have le: "crawled_count st1 + failed_count st1 \<le> n"
        using True st1 by (cases result) simp_all
      have w1: "\<exists>k\<le>length (result # used2). w = all_books st @ successes (take k (result # used2))"
        if "w \<in> set ws1" for w
        using that ws1(2) st1(1) by (intro exI[of _ 1]) simp
      have w2: "\<exists>k\<le>length (result # used2). w = all_books st @ successes (take k (result # used2))"
        if "w \<in> set ws2" for w
      proof -
        from that u2(7) obtain k where k: "k \<le> length used2" "w = all_books st1 @ successes (take k used2)"
          by blast
        show ?thesis
          using k st1(1) s1[of "take k used2"] by (intro exI[of _ "Suc k"]) simp
      qed
      have wr': "\<exists>ws. written d' = written d @ ws
           \<and> (\<forall>w\<in>set ws. \<exists>k\<le>length (result # used2). w = all_books st @ successes (take k (result # used2)))"
        using u2(6) ws1(1) w1 w2 by (intro exI[of _ "ws1 @ ws2"]) auto
      have c1: "all_books st' = all_books st @ successes (result # used2)"
        using u2(2) st1(1) s1[of used2] by simp
      have c2: "crawled_count st' = crawled_count st + length (successes (result # used2))"
        using u2(3) st1(2) s1[of used2] by simp
      have c3: "failed_count st' = failed_count st + count_list (result # used2) None"
        using u2(4) st1(3) by simp
      have c4: "ex = Completed \<longrightarrow> Popped result # q = map Popped (result # used2) @ rest
           \<and> \<not> crawled_count st' + failed_count st' < n
           \<and> (crawled_count st + failed_count st \<le> n \<longrightarrow> crawled_count st' + failed_count st' = n)"
        using u2(5) le by simp
      have c0: "prefix (map Popped (result # used2)) (Popped result # q)"
        using u2(1) by simp
      show ?thesis
        using c0 c1 c2 c3 c4 wr' by (intro exI[of _ "result # used2"]) blast
    qed
  qed
qed

lemma successes_count: "length (successes xs) + count_list xs None = length xs"
  by (induction xs rule: successes.induct) auto




text \<open>
  C1. When the loop ends by its condition, the succeeded and failed counts add up to
  the number of dispatched URLs. The loop has then pulled exactly that many results,
  none of them a timeout, and has left every later one on the queue; the succeeded count
  is the number of records among the pulled results, the failed count the number of
  failures among them, and the record list holds those records in order.
\<close>

theorem aggregation_completes_with_exact_count:
  "main_loop n results init_state d = (Completed, st, rest, d') \<Longrightarrow>
   crawled_count st + failed_count st = n
   \<and> (\<exists>used. results = map Popped used @ rest \<and> length used = n
         \<and> all_books st = successes used
         \<and> crawled_count st = length (successes used)
         \<and> failed_count st = count_list used None)"
proof -
  assume a: "main_loop n results init_state d = (Completed, st, rest, d')"
  from main_loop_trace[OF a] obtain used where u:
    "all_books st = successes used" "crawled_count st = length (successes used)"
    "failed_count st = count_list used None" "results = map Popped used @ rest"
    "crawled_count st + failed_count st = n"
    by (auto simp: init_state_def)
  from u(2,3,5) successes_count[of used] have "length used = n" by simp
  with u show ?thesis by blast
qed

theorem aggregation_completes_with_exact_count_witness:
  "main_loop 2 [Popped (Some sample_book), Popped None, Popped None] init_state
       \<lparr>written = [], faults = []\<rparr>
     = (Completed, \<lparr>all_books = [sample_book], crawled_count = 1, failed_count = 1\<rparr>,
        [Popped None], \<lparr>written = [], faults = []\<rparr>)
   \<and> crawled_count \<lparr>all_books = [sample_book], crawled_count = 1, failed_count = 1\<rparr>
        + failed_count \<lparr>all_books = [sample_book], crawled_count = 1, failed_count = 1\<rparr> = (2::nat)"
proof -
  have run: "main_loop 2 [Popped (Some sample_book), Popped None, Popped None] init_state
       \<lparr>written = [], faults = []\<rparr>
     = (Completed, \<lparr>all_books = [sample_book], crawled_count = 1, failed_count = 1\<rparr>,
        [Popped None], \<lparr>written = [], faults = []\<rparr>)"
    by (simp add: init_state_def record_result_def auto_save_def)
  show ?thesis
    by (rule conjI [OF run conjunct1 [OF aggregation_completes_with_exact_count [OF run]]])
qed






section \<open>Collecting the item URLs\<close>

lemma collect_links_app:
  "collect_links j pg books acc = acc @ map (j pg) (links_before_failure books)"
  by (induction j pg books acc rule: collect_links.induct) auto

lemma scan_page_app:
  "scan_page j get pg acc =
     acc @ (case get pg of Listing_error \<Rightarrow> [] | Listing books \<Rightarrow> map (j pg) (links_before_failure books))"
  by (simp add: scan_page_def collect_links_app split: listing.splits)

lemma foldl_app_concat: "foldl (\<lambda>acc p. acc @ f p) a ps = a @ concat (map f ps)"
  by (induction ps arbitrary: a) auto

text \<open>
  C5, as the code has it. Collection goes through every listing page, whatever happened
  on the pages before. A page that cannot be fetched or parsed contributes no URL; a
  page on which the link of some container cannot be read contributes the URLs of the
  containers before that one.
\<close>

theorem listing_failure_keeps_earlier_links:
  "get_book_urls urljoin get base_url total_pages =
     concat (map (\<lambda>page. case get (page_url base_url page) of
                            Listing_error \<Rightarrow> []
                          | Listing books \<Rightarrow>
                              map (urljoin (page_url base_url page)) (links_before_failure books))
                 [1..total_pages])"
  by (simp add: get_book_urls_def scan_page_app foldl_app_concat)

text \<open>
  The first page of the sample catalogue has a container without a readable link, in
  second place, and contributes the URL of the first container.
\<close>

theorem listing_failure_counterexample:
  "demo_site (page_url ''http://b/'' 1)
     = Listing [Some ''catalogue/a.html'', None, Some ''catalogue/z.html'']
   \<and> get_book_urls dir_join demo_site ''http://b/'' 1 = [''http://b/catalogue/a.html'']"
  by code_simp





end
